theory Spec2Isabelle
  imports Complex_Main "HOL-Library.Word"
begin

section \<open>Python values used by the client\<close>

text \<open>
  \<^verbatim>\<open>bytes\<close> is a list of 8-bit words. A Python \<^verbatim>\<open>str\<close> is a list of Unicode code
  points (\<^verbatim>\<open>len\<close> counts code points, \<^verbatim>\<open>encode\<close> turns them into bytes). Python
  integers are unbounded: \<open>int\<close>. Every exception the modelled code can raise is a value
  of \<open>exn\<close>; a call that may raise returns \<open>exn + 'a\<close> with \<open>Inl\<close> for the raise.
\<close>

type_synonym byte = "8 word"
type_synonym pybytes = "byte list"
type_synonym pystr = "nat list"

datatype exn =
    UnicodeDecodeError
  | UnicodeEncodeError
  | StructError
  | OverflowError
  | FrozenInstanceError
  | AttributeError
  | OSError
  | UnpackerError

text \<open>\<^verbatim>\<open>data[a:b]\<close> for \<open>0 \<le> a \<le> b\<close>: a slice never raises, it is cut at the end.\<close>

definition py_slice :: "nat \<Rightarrow> nat \<Rightarrow> 'a list \<Rightarrow> 'a list" where
  "py_slice a b xs = take (b - a) (drop a xs)"

text \<open>\<^verbatim>\<open>data.partition(b'\0')[0]\<close>: the bytes before the first null byte, or all of them.\<close>

definition before_null :: "pybytes \<Rightarrow> pybytes" where
  "before_null bs = takeWhile (\<lambda>b. b \<noteq> 0) bs"

text \<open>\<^verbatim>\<open>int.from_bytes(bs, byteorder='little', signed=True)\<close>; the empty string gives 0.\<close>

fun le_nat :: "pybytes \<Rightarrow> nat" where
  "le_nat [] = 0"
| "le_nat (b # bs) = unat b + 256 * le_nat bs"

definition int_from_bytes :: "pybytes \<Rightarrow> int" where
  "int_from_bytes bs =
     (let u = int (le_nat bs)
      in if bs \<noteq> [] \<and> 2 ^ (8 * length bs - 1) \<le> u then u - 2 ^ (8 * length bs) else u)"

text \<open>\<^verbatim>\<open>n.to_bytes(2, byteorder='little', signed=True)\<close>: OverflowError outside 16 bits.\<close>

definition int_to_bytes2 :: "int \<Rightarrow> exn + pybytes" where
  "int_to_bytes2 n =
     (if - 32768 \<le> n \<and> n \<le> 32767
      then Inr [word_of_int (n mod 256), word_of_int ((n mod 65536) div 256)]
      else Inl OverflowError)"

text \<open>\<^verbatim>\<open>struct.unpack('BBBB', bs)\<close>: four unsigned bytes, struct.error unless \<open>bs\<close> has
  exactly four bytes.\<close>

definition struct_unpack_BBBB :: "pybytes \<Rightarrow> exn + (int \<times> int \<times> int \<times> int)" where
  "struct_unpack_BBBB bs =
     (case bs of
        [a, b, c, d] \<Rightarrow> Inr (uint a, uint b, uint c, uint d)
      | _ \<Rightarrow> Inl StructError)"

text \<open>
  \<^verbatim>\<open>str(bs, "utf-8")\<close>: strict UTF-8 decoding. \<open>None\<close> is UnicodeDecodeError: a stray
  or missing continuation byte, an overlong form, a surrogate, a value above U+10FFFF.
\<close>

definition cont :: "nat \<Rightarrow> bool" where
  "cont b = (128 \<le> b \<and> b < 192)"

fun utf8_dec :: "nat list \<Rightarrow> pystr option" where
  "utf8_dec [] = Some []"
| "utf8_dec (b0 # bs) =
     (if b0 < 128 then map_option (Cons b0) (utf8_dec bs)
      else if 194 \<le> b0 \<and> b0 < 224 then
        (case bs of
           b1 # r \<Rightarrow>
             if cont b1
             then map_option (Cons ((b0 - 192) * 64 + (b1 - 128))) (utf8_dec r)
             else None
         | _ \<Rightarrow> None)
      else if 224 \<le> b0 \<and> b0 < 240 then
        (case bs of
           b1 # b2 # r \<Rightarrow>
             (let cp = (b0 - 224) * 4096 + (b1 - 128) * 64 + (b2 - 128)
              in if cont b1 \<and> cont b2 \<and> 2048 \<le> cp \<and> \<not> (55296 \<le> cp \<and> cp < 57344)
                 then map_option (Cons cp) (utf8_dec r)
                 else None)
         | _ \<Rightarrow> None)
      else if 240 \<le> b0 \<and> b0 < 245 then
        (case bs of
           b1 # b2 # b3 # r \<Rightarrow>
             (let cp = (b0 - 240) * 262144 + (b1 - 128) * 4096 + (b2 - 128) * 64 + (b3 - 128)
              in if cont b1 \<and> cont b2 \<and> cont b3 \<and> 65536 \<le> cp \<and> cp < 1114112
                 then map_option (Cons cp) (utf8_dec r)
                 else None)
         | _ \<Rightarrow> None)
      else None)"

definition utf8_decode :: "pybytes \<Rightarrow> exn + pystr" where
  "utf8_decode bs =
     (case utf8_dec (map unat bs) of None \<Rightarrow> Inl UnicodeDecodeError | Some s \<Rightarrow> Inr s)"

text \<open>
  \<^verbatim>\<open>s.encode("utf-8")\<close>: a surrogate code point raises UnicodeEncodeError (a Python
  \<^verbatim>\<open>str\<close> holds no code point above U+10FFFF; the model raises there too).
\<close>

definition utf8_enc1 :: "nat \<Rightarrow> nat list option" where
  "utf8_enc1 cp =
     (if cp < 128 then Some [cp]
      else if cp < 2048 then Some [192 + cp div 64, 128 + cp mod 64]
      else if 55296 \<le> cp \<and> cp < 57344 then None
      else if cp < 65536 then Some [224 + cp div 4096, 128 + (cp div 64) mod 64, 128 + cp mod 64]
      else if cp < 1114112 then
        Some [240 + cp div 262144, 128 + (cp div 4096) mod 64, 128 + (cp div 64) mod 64,
              128 + cp mod 64]
      else None)"

fun utf8_enc :: "pystr \<Rightarrow> nat list option" where
  "utf8_enc [] = Some []"
| "utf8_enc (cp # cps) =
     (case utf8_enc1 cp of
        None \<Rightarrow> None
      | Some bs \<Rightarrow> map_option (\<lambda>r. bs @ r) (utf8_enc cps))"

definition utf8_encode :: "pystr \<Rightarrow> exn + pybytes" where
  "utf8_encode s =
     (case utf8_enc s of None \<Rightarrow> Inl UnicodeEncodeError | Some bs \<Rightarrow> Inr (map of_nat bs))"

text \<open>A string literal of the source, as code points.\<close>

definition lit :: "string \<Rightarrow> pystr" where
  "lit s = map of_char s"


section \<open>NatNetTypes: enumerations\<close>

datatype NAT_Data =
    MARKER_SET | RIGID_BODY | SKELETON | FORCE_PLATE | DEVICE | CAMERA | ASSET
  | UNDEFINED_DATA

text \<open>\<^verbatim>\<open>NAT_Data(t)\<close>: the member with that value; \<^verbatim>\<open>_missing_\<close> gives UNDEFINED.\<close>

definition NAT_Data_of :: "int \<Rightarrow> NAT_Data" where
  "NAT_Data_of t =
     (if t = 0 then MARKER_SET
      else if t = 1 then RIGID_BODY
      else if t = 2 then SKELETON
      else if t = 3 then FORCE_PLATE
      else if t = 4 then DEVICE
      else if t = 5 then CAMERA
      else if t = 6 then ASSET
      else UNDEFINED_DATA)"

datatype NAT_Messages =
    CONNECT | SERVER_INFO | REQUEST | RESPONSE | REQUEST_MODEL_DEF | MODEL_DEF
  | REQUEST_FRAME_OF_DATA | FRAME_OF_DATA | MESSAGE_STRING | DISCONNECT | KEEP_ALIVE
  | UNRECOGNIZED_REQUEST | UNDEFINED

fun NAT_value :: "NAT_Messages \<Rightarrow> int" where
  "NAT_value CONNECT = 0"
| "NAT_value SERVER_INFO = 1"
| "NAT_value REQUEST = 2"
| "NAT_value RESPONSE = 3"
| "NAT_value REQUEST_MODEL_DEF = 4"
| "NAT_value MODEL_DEF = 5"
| "NAT_value REQUEST_FRAME_OF_DATA = 6"
| "NAT_value FRAME_OF_DATA = 7"
| "NAT_value MESSAGE_STRING = 8"
| "NAT_value DISCONNECT = 9"
| "NAT_value KEEP_ALIVE = 10"
| "NAT_value UNRECOGNIZED_REQUEST = 100"
| "NAT_value UNDEFINED = 999999"

definition NAT_Messages_of :: "int \<Rightarrow> NAT_Messages" where
  "NAT_Messages_of t =
     (if t = 0 then CONNECT
      else if t = 1 then SERVER_INFO
      else if t = 2 then REQUEST
      else if t = 3 then RESPONSE
      else if t = 4 then REQUEST_MODEL_DEF
      else if t = 5 then MODEL_DEF
      else if t = 6 then REQUEST_FRAME_OF_DATA
      else if t = 7 then FRAME_OF_DATA
      else if t = 8 then MESSAGE_STRING
      else if t = 9 then DISCONNECT
      else if t = 10 then KEEP_ALIVE
      else if t = 100 then UNRECOGNIZED_REQUEST
      else UNDEFINED)"


section \<open>NatNetTypes: records with an id-keyed map\<close>

text \<open>
  The frozen dataclasses. A float field is carried, never computed with, by the
  collection records: its type is the parameter \<open>'f\<close>. A field name that several
  classes share, or that is one letter, gets the class as a suffix (\<open>id_rb\<close>,
  \<open>id_lm\<close>, \<open>x_pos\<close>).
\<close>

record 'f Position =
  x_pos :: 'f
  y_pos :: 'f
  z_pos :: 'f

record 'f Quaternion =
  x_quat :: 'f
  y_quat :: 'f
  z_quat :: 'f
  w_quat :: 'f
  roll :: 'f
  pitch :: 'f
  jaw :: 'f

record 'f Rigid_body =
  id_rb :: int
  pos_rb :: "'f Position"
  rot :: "'f Quaternion"
  err :: 'f
  tracking :: bool

record 'f Labeled_marker =
  id_lm :: int
  pos_lm :: "'f Position"
  size_lm :: int
  param :: int
  residual :: 'f

text \<open>
  \<^verbatim>\<open>{ instance.id : instance for instance in xs }\<close>: the comprehension stores the
  instances in sequence order, a later one replacing an earlier one with the same key.
\<close>

fun dict_comp :: "('a \<Rightarrow> 'k) \<Rightarrow> 'a list \<Rightarrow> ('k \<rightharpoonup> 'a) \<Rightarrow> ('k \<rightharpoonup> 'a)" where
  "dict_comp key [] m = m"
| "dict_comp key (instance # xs) m = dict_comp key xs (m(key instance \<mapsto> instance))"

record 'f Rigid_body_data =
  num_rigid_bodies :: int
  rigid_bodies :: "'f Rigid_body list"
  rigid_bodies_d :: "int \<rightharpoonup> 'f Rigid_body"

record 'f Labeled_marker_data =
  num_markers :: int
  markers :: "'f Labeled_marker list"
  markers_d :: "int \<rightharpoonup> 'f Labeled_marker"

text \<open>The generated \<^verbatim>\<open>__init__\<close> followed by \<^verbatim>\<open>__post_init__\<close>.\<close>

definition Rigid_body_data_init :: "int \<Rightarrow> 'f Rigid_body list \<Rightarrow> 'f Rigid_body_data" where
  "Rigid_body_data_init n rbs =
     \<lparr>num_rigid_bodies = n, rigid_bodies = rbs,
      rigid_bodies_d = dict_comp id_rb rbs Map.empty\<rparr>"

definition Labeled_marker_data_init ::
  "int \<Rightarrow> 'f Labeled_marker list \<Rightarrow> 'f Labeled_marker_data" where
  "Labeled_marker_data_init n ms =
     \<lparr>num_markers = n, markers = ms, markers_d = dict_comp id_lm ms Map.empty\<rparr>"

text \<open>Four rigid bodies with the ids 5, 2, 2, 7; the two with id 2 differ in \<open>tracking\<close>.\<close>

definition origin :: "real Position" where
  "origin = \<lparr>x_pos = 0, y_pos = 0, z_pos = 0\<rparr>"

definition unit_rot :: "real Quaternion" where
  "unit_rot = \<lparr>x_quat = 0, y_quat = 0, z_quat = 0, w_quat = 1, roll = 0, pitch = 0, jaw = 0\<rparr>"

definition body :: "int \<Rightarrow> bool \<Rightarrow> real Rigid_body" where
  "body i t = \<lparr>id_rb = i, pos_rb = origin, rot = unit_rot, err = 0, tracking = t\<rparr>"

definition bodies_5227 :: "real Rigid_body list" where
  "bodies_5227 = [body 5 True, body 2 False, body 2 True, body 7 True]"

definition marker :: "int \<Rightarrow> int \<Rightarrow> real Labeled_marker" where
  "marker i s = \<lparr>id_lm = i, pos_lm = origin, size_lm = s, param = 0, residual = 0\<rparr>"

definition markers_5227 :: "real Labeled_marker list" where
  "markers_5227 = [marker 5 1, marker 2 1, marker 2 2, marker 7 1]"


section \<open>Client: the collaborators\<close>

text \<open>
  The UDP socket is an external capability. A socket of the model records how it was
  bound and set up, whether it was closed, the datagrams sent through it, and a script
  of the outcomes of its coming \<^verbatim>\<open>sendto\<close> calls: \<^verbatim>\<open>sendto\<close> returns the number of
  bytes sent or raises OSError (it never returns -1). The environment says which binds
  and which multicast joins succeed.
\<close>

datatype send_outcome = SendOk | SendFails

record sock =
  bound_ip :: pystr
  bound_port :: int
  proto :: int
  broadcast :: bool
  membership :: "(pystr \<times> pystr) option"
  closed :: bool
  outbox :: "(pybytes \<times> pystr \<times> int) list"
  script :: "send_outcome list"

record env =
  bind_ok :: "pystr \<Rightarrow> int \<Rightarrow> bool"
  join_ok :: "pystr \<Rightarrow> pystr \<Rightarrow> bool"
  send_script :: "send_outcome list"

definition sendto :: "pybytes \<Rightarrow> pystr \<times> int \<Rightarrow> sock \<Rightarrow> (exn + int) \<times> sock" where
  "sendto data addr s =
     (if closed s then (Inl OSError, s)
      else case script s of
             SendFails # rest \<Rightarrow> (Inl OSError, s\<lparr>script := rest\<rparr>)
           | SendOk # rest \<Rightarrow>
               (Inr (int (length data)),
                s\<lparr>script := rest, outbox := outbox s @ [(data, addr)]\<rparr>)
           | [] \<Rightarrow> (Inr (int (length data)), s\<lparr>outbox := outbox s @ [(data, addr)]\<rparr>))"

text \<open>
  What a receive loop gets from \<^verbatim>\<open>recv\<close>: a datagram, a timeout or another socket
  error.
\<close>

datatype recv_event = Datagram pybytes | Timeout | SocketError

text \<open>
  The module \<^verbatim>\<open>natnet_client.Unpackers\<close> is imported by the client and is not among
  the sources. Its two classes are the values of \<open>unpacker\<close>; their static methods are
  parameters: the frame unpacker, and the descriptor unpacker of each descriptor kind.
  Each returns the decoded value and the bytes it consumed, or raises.
\<close>

datatype unpacker = DataUnpackerV3_0 | DataUnpackerV4_1

record ('m, 'd) unpackers =
  unpack_mocap_data :: "unpacker \<Rightarrow> pybytes \<Rightarrow> exn + ('m \<times> nat)"
  unpack_description :: "unpacker \<Rightarrow> NAT_Data \<Rightarrow> pybytes \<Rightarrow> exn + ('d \<times> nat)"

text \<open>\<^verbatim>\<open>deque(maxlen=n).append(v)\<close>: append, then drop the oldest entry if over capacity.\<close>

definition deque_append :: "nat \<Rightarrow> 'a list \<Rightarrow> 'a \<Rightarrow> 'a list" where
  "deque_append maxlen q v = (let q' = q @ [v] in if maxlen < length q' then tl q' else q')"


section \<open>Client: state\<close>

record Server_info =
  application_name :: pystr
  version :: "int \<times> int \<times> int \<times> int"
  nat_net_major :: int
  nat_net_minor :: int

datatype response = IntResponse int | StrResponse pystr

text \<open>
  A thread attribute of the client: unset until \<^verbatim>\<open>connect\<close> assigns it (\<open>None\<close>, reading
  it raises AttributeError), then a started thread, then a joined one.
\<close>

datatype thread = Started | Joined

record config =
  server_address :: pystr
  local_ip_address :: pystr
  use_multicast :: bool
  multicast_address :: pystr
  command_port :: int
  data_port :: int

text \<open>
  The instance. The locks are left out: the model runs one call at a time. The two
  dispatch tables are the \<open>case\<close> of \<open>process_message\<close> and the \<open>unpack_description\<close>
  of the current \<open>unpacker\<close>. The attribute \<open>unpacker\<close> is assigned at the end of
  \<^verbatim>\<open>__post_init__\<close> and read by no modelled call before that.
\<close>

record 'm client = config +
  mocap :: "'m option"
  running :: bool
  command_socket :: "sock option"
  data_socket :: "sock option"
  freeze :: bool
  max_buffer_size :: nat
  server_responses :: "response list"
  server_messages :: "pystr list"
  server_info :: Server_info
  unpacker :: unpacker
  command_thread :: "thread option"
  data_thread :: "thread option"

definition default_config :: config where
  "default_config =
     \<lparr>server_address = lit ''127.0.0.1'', local_ip_address = lit ''127.0.0.1'',
      use_multicast = True, multicast_address = lit ''239.255.42.99'',
      command_port = 1510, data_port = 1511\<rparr>"


section \<open>Client: sockets and connection\<close>

definition IPPROTO_UDP :: int where
  "IPPROTO_UDP = 17"

definition create_socket :: "env \<Rightarrow> pystr \<Rightarrow> int \<Rightarrow> int \<Rightarrow> sock option" where
  "create_socket e ip pr port =
     (if bind_ok e ip port
      then Some \<lparr>bound_ip = ip, bound_port = port, proto = pr, broadcast = False,
                 membership = None, closed = False, outbox = [], script = send_script e\<rparr>
      else None)"

definition create_command_socket :: "env \<Rightarrow> 'm client \<Rightarrow> bool \<times> 'm client" where
  "create_command_socket e c =
     (let ip = (if use_multicast c then [] else local_ip_address c);
          pr = (if use_multicast c then 0 else IPPROTO_UDP)
      in case create_socket e ip pr 0 of
           None \<Rightarrow> (False, c\<lparr>command_socket := None\<rparr>)
         | Some s \<Rightarrow>
             (True, c\<lparr>command_socket := Some (s\<lparr>broadcast := use_multicast c\<rparr>)\<rparr>))"

definition create_data_socket :: "env \<Rightarrow> 'm client \<Rightarrow> (exn + bool) \<times> 'm client" where
  "create_data_socket e c =
     (let ip = (if use_multicast c then local_ip_address c else []);
          pr = (if use_multicast c then 0 else IPPROTO_UDP);
          port = (if use_multicast c then data_port c else 0)
      in case create_socket e ip pr port of
           None \<Rightarrow> (Inr False, c\<lparr>data_socket := None\<rparr>)
         | Some s \<Rightarrow>
             (if use_multicast c \<or> multicast_address c \<noteq> lit ''255.255.255.255''
              then (if join_ok e (multicast_address c) (local_ip_address c)
                    then (Inr True,
                          c\<lparr>data_socket :=
                              Some (s\<lparr>membership :=
                                         Some (multicast_address c, local_ip_address c)\<rparr>)\<rparr>)
                    else (Inl OSError, c\<lparr>data_socket := Some s\<rparr>))
              else (Inr True, c\<lparr>data_socket := Some s\<rparr>)))"

text \<open>\<^verbatim>\<open>s.ljust(n, ch)\<close>: pad on the right up to \<open>n\<close> characters.\<close>

definition ljust :: "nat \<Rightarrow> nat \<Rightarrow> pystr \<Rightarrow> pystr" where
  "ljust n ch s = s @ replicate (n - length s) ch"

definition connect_command :: pystr where
  "connect_command = ljust 265 0 (lit ''Ping'') @ [4] @ [1] @ [0] @ [0] @ [0]"

text \<open>
  The body of \<^verbatim>\<open>send_request\<close> between its first guard and the lock: the command text
  that is sent and the declared packet size, then the datagram.
\<close>

definition request_fields :: "NAT_Messages \<Rightarrow> pystr \<Rightarrow> pystr \<times> int" where
  "request_fields NAT_command command =
     (if NAT_command = KEEP_ALIVE \<or> NAT_command = REQUEST_MODEL_DEF
         \<or> NAT_command = REQUEST_FRAME_OF_DATA
      then ([], 0)
      else if NAT_command = REQUEST then (command, int (length command) + 1)
      else if NAT_command = CONNECT then (connect_command, int (length connect_command) + 1)
      else (command, 0))"

definition request_data :: "NAT_Messages \<Rightarrow> pystr \<Rightarrow> exn + pybytes" where
  "request_data NAT_command command =
     (case request_fields NAT_command command of
        (text, packet_size) \<Rightarrow>
          (case int_to_bytes2 (NAT_value NAT_command) of
             Inl ex \<Rightarrow> Inl ex
           | Inr kind_bytes \<Rightarrow>
               (case int_to_bytes2 packet_size of
                  Inl ex \<Rightarrow> Inl ex
                | Inr size_bytes \<Rightarrow>
                    (case utf8_encode text of
                       Inl ex \<Rightarrow> Inl ex
                     | Inr payload \<Rightarrow> Inr (kind_bytes @ size_bytes @ payload @ [0])))))"

definition send_request ::
  "NAT_Messages \<Rightarrow> pystr \<Rightarrow> 'm client \<Rightarrow> (exn + int) \<times> 'm client" where
  "send_request NAT_command command c =
     (if \<not> running c \<or> NAT_command = UNDEFINED then (Inr (- 1), c)
      else case request_data NAT_command command of
             Inl ex \<Rightarrow> (Inl ex, c)
           | Inr data \<Rightarrow>
               (case command_socket c of
                  None \<Rightarrow> (Inr (- 1), c)
                | Some s \<Rightarrow>
                    (case sendto data (server_address c, command_port c) s of
                       (r, s') \<Rightarrow> (r, c\<lparr>command_socket := Some s'\<rparr>))))"

text \<open>The \<^verbatim>\<open>for _ in range(3)\<close> of \<^verbatim>\<open>send_command\<close>, with the attempts left.\<close>

fun send_command_loop ::
  "nat \<Rightarrow> pystr \<Rightarrow> int \<Rightarrow> 'm client \<Rightarrow> (exn + int) \<times> 'm client" where
  "send_command_loop 0 command res c = (Inr res, c)"
| "send_command_loop (Suc n) command res c =
     (case send_request REQUEST command c of
        (Inl ex, c') \<Rightarrow> (Inl ex, c')
      | (Inr res', c') \<Rightarrow>
          if res' \<noteq> - 1 then (Inr res', c') else send_command_loop n command res' c')"

definition send_command :: "pystr \<Rightarrow> 'm client \<Rightarrow> (exn + bool) \<times> 'm client" where
  "send_command command c =
     (case send_command_loop 3 command (- 1) c of
        (Inl ex, c') \<Rightarrow> (Inl ex, c')
      | (Inr res, c') \<Rightarrow> (Inr (res \<noteq> - 1), c'))"

definition connect :: "env \<Rightarrow> 'm client \<Rightarrow> (exn + unit) \<times> 'm client" where
  "connect e c =
     (if running c then (Inr (), c)
      else case create_command_socket e c of
        (ok1, c1) \<Rightarrow>
          if \<not> ok1 then (Inr (), c1)
          else (case create_data_socket e c1 of
                  (Inl ex, c2) \<Rightarrow> (Inl ex, c2)
                | (Inr ok2, c2) \<Rightarrow>
                    if \<not> ok2 then (Inr (), c2)
                    else (case send_request CONNECT [] c2 of
                            (Inl ex, c3) \<Rightarrow> (Inl ex, c3)
                          | (Inr _, c3) \<Rightarrow>
                              (Inr (),
                               c3\<lparr>running := True, command_thread := Some Started,
                                  data_thread := Some Started\<rparr>))))"

definition update_unpacker_version :: "'m client \<Rightarrow> 'm client" where
  "update_unpacker_version c =
     c\<lparr>unpacker :=
         (if (nat_net_major (server_info c) = 4 \<and> 1 \<le> nat_net_minor (server_info c))
             \<or> nat_net_major (server_info c) = 0
          then DataUnpackerV4_1 else DataUnpackerV3_0)\<rparr>"

text \<open>
  The generated \<^verbatim>\<open>__init__\<close> (every field assigned, the guard of \<^verbatim>\<open>__setattr__\<close>
  reading the class default \<^verbatim>\<open>False\<close> of \<^verbatim>\<open>__freeze\<close>) followed by \<^verbatim>\<open>__post_init__\<close>.
  An exception leaves no instance.
\<close>

definition NatNetClient_init :: "env \<Rightarrow> config \<Rightarrow> nat \<Rightarrow> exn + 'm client" where
  "NatNetClient_init e cfg max_buffer =
     (let c0 =
        \<lparr>server_address = server_address cfg, local_ip_address = local_ip_address cfg,
         use_multicast = use_multicast cfg, multicast_address = multicast_address cfg,
         command_port = command_port cfg, data_port = data_port cfg,
         mocap = None, running = False, command_socket = None, data_socket = None,
         freeze = False, max_buffer_size = max_buffer,
         server_responses = [], server_messages = [],
         server_info =
           \<lparr>application_name = lit ''None'', version = (0, 0, 0, 0),
            nat_net_major = 0, nat_net_minor = 0\<rparr>,
         unpacker = DataUnpackerV3_0, command_thread = None, data_thread = None\<rparr>
      in case connect e c0 of
           (Inl ex, _) \<Rightarrow> Inl ex
         | (Inr _, c1) \<Rightarrow> Inr (update_unpacker_version c1))"

text \<open>\<^verbatim>\<open>__setattr__\<close> for an assignment to one of the six configuration fields.\<close>

datatype assignment =
    Set_server_address pystr
  | Set_local_ip_address pystr
  | Set_use_multicast bool
  | Set_multicast_address pystr
  | Set_command_port int
  | Set_data_port int

fun attr_name :: "assignment \<Rightarrow> string" where
  "attr_name (Set_server_address _) = ''server_address''"
| "attr_name (Set_local_ip_address _) = ''local_ip_address''"
| "attr_name (Set_use_multicast _) = ''use_multicast''"
| "attr_name (Set_multicast_address _) = ''multicast_address''"
| "attr_name (Set_command_port _) = ''command_port''"
| "attr_name (Set_data_port _) = ''data_port''"

fun assign :: "assignment \<Rightarrow> 'm client \<Rightarrow> 'm client" where
  "assign (Set_server_address v) c = c\<lparr>server_address := v\<rparr>"
| "assign (Set_local_ip_address v) c = c\<lparr>local_ip_address := v\<rparr>"
| "assign (Set_use_multicast v) c = c\<lparr>use_multicast := v\<rparr>"
| "assign (Set_multicast_address v) c = c\<lparr>multicast_address := v\<rparr>"
| "assign (Set_command_port v) c = c\<lparr>command_port := v\<rparr>"
| "assign (Set_data_port v) c = c\<lparr>data_port := v\<rparr>"

definition setattr :: "assignment \<Rightarrow> 'm client \<Rightarrow> exn + 'm client" where
  "setattr a c =
     (if freeze c \<and> attr_name a \<in> set [''server_address'', ''local_ip_address'',
           ''use_multicast'', ''multicast_address'', ''command_port'', ''data_port'']
      then Inl FrozenInstanceError
      else Inr (assign a c))"

definition shutdown :: "'m client \<Rightarrow> (exn + unit) \<times> 'm client" where
  "shutdown c =
     (let c1 = c\<lparr>running := False\<rparr>;
          c2 = (case command_socket c1 of
                  Some s \<Rightarrow> c1\<lparr>command_socket := Some (s\<lparr>closed := True\<rparr>)\<rparr>
                | None \<Rightarrow> c1);
          c3 = (case data_socket c2 of
                  Some s \<Rightarrow> c2\<lparr>data_socket := Some (s\<lparr>closed := True\<rparr>)\<rparr>
                | None \<Rightarrow> c2);
          c4 = c3\<lparr>command_socket := None, data_socket := None\<rparr>
      in case data_thread c4 of
           None \<Rightarrow> (Inl AttributeError, c4)
         | Some _ \<Rightarrow>
             (let c5 = c4\<lparr>data_thread := Some Joined\<rparr>
              in case command_thread c5 of
                   None \<Rightarrow> (Inl AttributeError, c5)
                 | Some _ \<Rightarrow> (Inr (), c5\<lparr>command_thread := Some Joined\<rparr>)))"


section \<open>Client: message handlers and dispatcher\<close>

definition get_message_id :: "pybytes \<Rightarrow> int" where
  "get_message_id data = int_from_bytes (py_slice 0 2 data)"

definition unpack_mocap_data_msg ::
  "('m, 'd) unpackers \<Rightarrow> pybytes \<Rightarrow> int \<Rightarrow> 'm client \<Rightarrow> (exn + int) \<times> 'm client" where
  "unpack_mocap_data_msg U data packet_size c =
     (case unpack_mocap_data U (unpacker c) data of
        Inl ex \<Rightarrow> (Inl ex, c)
      | Inr (frame, offset) \<Rightarrow> (Inr (int offset), c\<lparr>mocap := Some frame\<rparr>))"

text \<open>
  The loop of \<^verbatim>\<open>__unpack_data_descriptions\<close>, with the entries left and the cursor.
  The declared size of an entry is read under the current variant and not used.
\<close>

fun data_descriptions_loop ::
  "('m, 'd) unpackers \<Rightarrow> unpacker \<Rightarrow> nat \<Rightarrow> pybytes \<Rightarrow> nat \<Rightarrow> exn + nat" where
  "data_descriptions_loop U v 0 data offset = Inr offset"
| "data_descriptions_loop U v (Suc n) data offset =
     (let t = int_from_bytes (py_slice offset (offset + 4) data);
          offset1 = offset + 4;
          offset2 = (if v = DataUnpackerV4_1 then offset1 + 4 else offset1);
          data_description_type = NAT_Data_of t
      in if data_description_type = UNDEFINED_DATA
         then data_descriptions_loop U v n data offset2
         else (case unpack_description U v data_description_type (drop offset2 data) of
                 Inl ex \<Rightarrow> Inl ex
               | Inr (d, tmp_offset) \<Rightarrow>
                   data_descriptions_loop U v n data (offset2 + tmp_offset)))"

definition unpack_data_descriptions ::
  "('m, 'd) unpackers \<Rightarrow> pybytes \<Rightarrow> int \<Rightarrow> 'm client \<Rightarrow> (exn + int) \<times> 'm client" where
  "unpack_data_descriptions U data packet_size c =
     (let dataset_count = int_from_bytes (py_slice 0 4 data)
      in case data_descriptions_loop U (unpacker c) (nat dataset_count) data 4 of
           Inl ex \<Rightarrow> (Inl ex, c)
         | Inr offset \<Rightarrow> (Inr (int offset), c))"

text \<open>
  Line 253 of the client names the bound method \<^verbatim>\<open>self.__update_unpacker_version\<close>
  without calling it: the statement runs nothing, and the model has nothing there.
\<close>

definition unpack_server_info ::
  "pybytes \<Rightarrow> int \<Rightarrow> 'm client \<Rightarrow> (exn + int) \<times> 'm client" where
  "unpack_server_info data packet_size c =
     (case utf8_decode (before_null (py_slice 0 256 data)) of
        Inl ex \<Rightarrow> (Inl ex, c)
      | Inr name \<Rightarrow>
          (case struct_unpack_BBBB (py_slice 256 260 data) of
             Inl ex \<Rightarrow> (Inl ex, c)
           | Inr ver \<Rightarrow>
               (case struct_unpack_BBBB (py_slice 260 264 data) of
                  Inl ex \<Rightarrow> (Inl ex, c)
                | Inr (major, minor, _, _) \<Rightarrow>
                    (Inr 264,
                     c\<lparr>server_info :=
                         \<lparr>application_name = name, version = ver,
                          nat_net_major = major, nat_net_minor = minor\<rparr>\<rparr>))))"

definition unpack_server_response ::
  "pybytes \<Rightarrow> int \<Rightarrow> 'm client \<Rightarrow> (exn + int) \<times> 'm client" where
  "unpack_server_response data packet_size c =
     (if packet_size = 4
      then (Inr 4,
            c\<lparr>server_responses :=
                deque_append (max_buffer_size c) (server_responses c)
                  (IntResponse (int_from_bytes data))\<rparr>)
      else (let response = before_null (take 256 data)
            in if length response < 30
               then (case utf8_decode response of
                       Inl ex \<Rightarrow> (Inl ex, c)
                     | Inr s \<Rightarrow>
                         (Inr (int (length response)),
                          c\<lparr>server_responses :=
                              deque_append (max_buffer_size c) (server_responses c)
                                (StrResponse s)\<rparr>))
               else (Inr (int (length response)), c)))"

definition unpack_server_message ::
  "pybytes \<Rightarrow> int \<Rightarrow> 'm client \<Rightarrow> (exn + int) \<times> 'm client" where
  "unpack_server_message data packet_size c =
     (let message = before_null data
      in case utf8_decode message of
           Inl ex \<Rightarrow> (Inl ex, c)
         | Inr s \<Rightarrow>
             (Inr (int (length message) + 1),
              c\<lparr>server_messages :=
                  deque_append (max_buffer_size c) (server_messages c) s\<rparr>))"

definition unpack_unrecognized_request ::
  "pybytes \<Rightarrow> int \<Rightarrow> 'm client \<Rightarrow> (exn + int) \<times> 'm client" where
  "unpack_unrecognized_request data packet_size c = (Inr packet_size, c)"

definition unpack_undefined_nat_message ::
  "pybytes \<Rightarrow> int \<Rightarrow> 'm client \<Rightarrow> (exn + int) \<times> 'm client" where
  "unpack_undefined_nat_message data packet_size c = (Inr packet_size, c)"

text \<open>The table \<^verbatim>\<open>__mapped\<close>: the handler of a message kind, if it has one.\<close>

fun mapped ::
  "('m, 'd) unpackers \<Rightarrow> NAT_Messages \<Rightarrow>
   (pybytes \<Rightarrow> int \<Rightarrow> 'm client \<Rightarrow> (exn + int) \<times> 'm client) option" where
  "mapped U FRAME_OF_DATA = Some (unpack_mocap_data_msg U)"
| "mapped U MODEL_DEF = Some (unpack_data_descriptions U)"
| "mapped U SERVER_INFO = Some unpack_server_info"
| "mapped U RESPONSE = Some unpack_server_response"
| "mapped U MESSAGE_STRING = Some unpack_server_message"
| "mapped U UNRECOGNIZED_REQUEST = Some unpack_unrecognized_request"
| "mapped U UNDEFINED = Some unpack_undefined_nat_message"
| "mapped U _ = None"

definition process_message ::
  "('m, 'd) unpackers \<Rightarrow> pybytes \<Rightarrow> 'm client \<Rightarrow> (exn + unit) \<times> 'm client" where
  "process_message U data c =
     (let message_id = NAT_Messages_of (get_message_id (py_slice 0 2 data));
          packet_size = int_from_bytes (py_slice 2 4 data)
      in case mapped U message_id of
           None \<Rightarrow> (Inr (), c)
         | Some handler \<Rightarrow>
             (case handler (drop 4 data) packet_size c of
                (Inl ex, c') \<Rightarrow> (Inl ex, c')
              | (Inr _, c') \<Rightarrow> (Inr (), c')))"

text \<open>
  A receive loop run on the datagrams and socket errors that \<^verbatim>\<open>recv\<close> delivers, in
  order. It ends \<open>Stopped\<close> (the loop or the function returned), \<open>Crashed\<close> (an exception
  left the thread function) or \<open>Waiting\<close> (blocked in \<^verbatim>\<open>recv\<close> after the last event).
  The first argument is the local \<^verbatim>\<open>run\<close>. The command loop differs from the data loop
  only in the socket it reads and in not logging a timeout.
\<close>

datatype loop_status = Waiting | Stopped | Crashed exn

fun data_thread_loop ::
  "('m, 'd) unpackers \<Rightarrow> bool \<Rightarrow> recv_event list \<Rightarrow> 'm client \<Rightarrow> loop_status \<times> 'm client"
  where
  "data_thread_loop U run [] c =
     (if \<not> run then (Stopped, c)
      else if data_socket c = None then (Stopped, c)
      else (Waiting, c))"
| "data_thread_loop U run (ev # evs) c =
     (if \<not> run then (Stopped, c)
      else if data_socket c = None then (Stopped, c)
      else (let data = (case ev of Datagram d \<Rightarrow> d | Timeout \<Rightarrow> [] | SocketError \<Rightarrow> [])
            in if data \<noteq> []
               then (case process_message U data c of
                       (Inl ex, c') \<Rightarrow> (Crashed ex, c')
                     | (Inr _, c') \<Rightarrow> data_thread_loop U (running c) evs c')
               else data_thread_loop U (running c) evs c))"

definition data_thread_function ::
  "('m, 'd) unpackers \<Rightarrow> recv_event list \<Rightarrow> 'm client \<Rightarrow> loop_status \<times> 'm client" where
  "data_thread_function U evs c = data_thread_loop U True evs c"

fun command_thread_loop ::
  "('m, 'd) unpackers \<Rightarrow> bool \<Rightarrow> recv_event list \<Rightarrow> 'm client \<Rightarrow> loop_status \<times> 'm client"
  where
  "command_thread_loop U run [] c =
     (if \<not> run then (Stopped, c)
      else if command_socket c = None then (Stopped, c)
      else (Waiting, c))"
| "command_thread_loop U run (ev # evs) c =
     (if \<not> run then (Stopped, c)
      else if command_socket c = None then (Stopped, c)
      else (let data = (case ev of Datagram d \<Rightarrow> d | Timeout \<Rightarrow> [] | SocketError \<Rightarrow> [])
            in if data \<noteq> []
               then (case process_message U data c of
                       (Inl ex, c') \<Rightarrow> (Crashed ex, c')
                     | (Inr _, c') \<Rightarrow> command_thread_loop U (running c) evs c')
               else command_thread_loop U (running c) evs c))"

definition command_thread_function ::
  "('m, 'd) unpackers \<Rightarrow> recv_event list \<Rightarrow> 'm client \<Rightarrow> loop_status \<times> 'm client" where
  "command_thread_function U evs c = command_thread_loop U True evs c"



section \<open>Example inputs\<close>

text \<open>
  Environments in which every bind succeeds and in which none does, an unpackers module
  whose every method raises and one that decodes camera descriptors only, and the client
  that construction gives in each environment with the default configuration.
\<close>

definition env_ok :: env where
  "env_ok = \<lparr>bind_ok = (\<lambda>ip port. True), join_ok = (\<lambda>g l. True), send_script = []\<rparr>"

definition env_no_bind :: env where
  "env_no_bind = \<lparr>bind_ok = (\<lambda>ip port. False), join_ok = (\<lambda>g l. True), send_script = []\<rparr>"

definition stub_unpackers :: "(unit, unit) unpackers" where
  "stub_unpackers =
     \<lparr>unpack_mocap_data = (\<lambda>v data. Inl UnpackerError),
      unpack_description = (\<lambda>v k data. Inl UnpackerError)\<rparr>"


definition default_command_sock :: sock where
  "default_command_sock =
     \<lparr>bound_ip = [], bound_port = 0, proto = 0, broadcast = True, membership = None,
      closed = False, outbox = [], script = []\<rparr>"

definition default_data_sock :: sock where
  "default_data_sock =
     \<lparr>bound_ip = lit ''127.0.0.1'', bound_port = 1511, proto = 0, broadcast = False,
      membership = Some (lit ''239.255.42.99'', lit ''127.0.0.1''),
      closed = False, outbox = [], script = []\<rparr>"

definition connected_default :: "unit client" where
  "connected_default =
     \<lparr>server_address = lit ''127.0.0.1'', local_ip_address = lit ''127.0.0.1'',
      use_multicast = True, multicast_address = lit ''239.255.42.99'',
      command_port = 1510, data_port = 1511,
      mocap = None, running = True, command_socket = Some default_command_sock,
      data_socket = Some default_data_sock, freeze = False, max_buffer_size = 255,
      server_responses = [], server_messages = [],
      server_info =
        \<lparr>application_name = lit ''None'', version = (0, 0, 0, 0),
         nat_net_major = 0, nat_net_minor = 0\<rparr>,
      unpacker = DataUnpackerV4_1, command_thread = Some Started,
      data_thread = Some Started\<rparr>"

definition unconnected_default :: "unit client" where
  "unconnected_default =
     connected_default\<lparr>running := False, command_socket := None, data_socket := None,
       command_thread := None, data_thread := None\<rparr>"

definition flaky_client :: "unit client" where
  "flaky_client =
     connected_default\<lparr>command_socket :=
       Some (default_command_sock\<lparr>script := [SendFails]\<rparr>)\<rparr>"

text \<open>
  Datagrams: a SERVER_INFO message of a server that speaks NatNet 3.0, a SERVER_INFO
  message cut after one byte, a RESPONSE with declared size 4 and payload 7, and three
  MODEL_DEF payloads that hold an entry of the unknown type 99.
\<close>

definition server_info_v3 :: pybytes where
  "server_info_v3 =
     [1, 0, 8, 1] @ map of_nat (lit ''Motive'') @ replicate 250 0 @ [3, 1, 0, 0] @ [3, 0, 0, 0]"

definition truncated_server_info :: pybytes where
  "truncated_server_info = [1, 0, 1, 0, 65]"

definition response_7 :: pybytes where
  "response_7 = [3, 0, 4, 0, 7, 0, 0, 0]"





section \<open>The id-keyed maps\<close>

lemma dict_comp_lookup:
  "dict_comp key xs m k =
     (if k \<in> key ` set xs then Some (last (filter (\<lambda>q. key q = k) xs)) else m k)"
proof (induction xs arbitrary: m)
  case Nil
  show ?case by simp
next
  case (Cons a xs)
  show ?case
  proof (cases "k \<in> key ` set xs")
    case True
    then have "filter (\<lambda>q. key q = k) xs \<noteq> []"
      by (auto simp: filter_empty_conv)
    with True show ?thesis by (simp add: Cons.IH)
  next
    case False
    then have "filter (\<lambda>q. key q = k) xs = []"
      by (auto simp: filter_empty_conv)
    with False show ?thesis by (auto simp: Cons.IH)
  qed
qed

lemma dict_comp_dom: "dom (dict_comp key xs Map.empty) = key ` set xs"
  by (auto simp: dom_def dict_comp_lookup)

lemma dict_comp_card:
  "card (key ` set xs) = length (remdups (map key xs))"
  by (simp add: length_remdups_card_conv)

text \<open>
  C7. The id-keyed map of a constructed collection record (rigid bodies, labeled
  markers) is determined by its ordered sequence: its keys are exactly the ids that
  occur in the sequence, so it has one entry per distinct id, and the entry of an id is
  the last record of the sequence with that id.
\<close>

theorem id_map_from_sequence:
  "dom (rigid_bodies_d (Rigid_body_data_init n rbs))
     = id_rb ` set (rigid_bodies (Rigid_body_data_init n rbs))
   \<and> card (dom (rigid_bodies_d (Rigid_body_data_init n rbs)))
     = length (remdups (map id_rb rbs))
   \<and> (\<forall>r \<in> set rbs.
        rigid_bodies_d (Rigid_body_data_init n rbs) (id_rb r)
          = Some (last (filter (\<lambda>q. id_rb q = id_rb r) rbs)))
   \<and> dom (markers_d (Labeled_marker_data_init k ms))
     = id_lm ` set (markers (Labeled_marker_data_init k ms))
   \<and> card (dom (markers_d (Labeled_marker_data_init k ms)))
     = length (remdups (map id_lm ms))
   \<and> (\<forall>r \<in> set ms.
        markers_d (Labeled_marker_data_init k ms) (id_lm r)
          = Some (last (filter (\<lambda>q. id_lm q = id_lm r) ms)))"
  by (simp add: Rigid_body_data_init_def Labeled_marker_data_init_def
      dict_comp_dom dict_comp_card dict_comp_lookup)

theorem id_map_from_sequence_witness:
  "card (dom (rigid_bodies_d (Rigid_body_data_init 4 bodies_5227))) = 3
   \<and> rigid_bodies_d (Rigid_body_data_init 4 bodies_5227) 2 = Some (body 2 True)
   \<and> card (dom (markers_d (Labeled_marker_data_init 4 markers_5227))) = 3
   \<and> markers_d (Labeled_marker_data_init 4 markers_5227) 2 = Some (marker 2 2)"
  using id_map_from_sequence [of 4 bodies_5227 4 markers_5227]
  by (simp add: bodies_5227_def markers_5227_def body_def marker_def
      Rigid_body_data_init_def Labeled_marker_data_init_def)


section \<open>Construction and connection\<close>

lemma connect_freeze: "connect e c = (r, c') \<Longrightarrow> freeze c' = freeze c"
  by (auto simp: connect_def create_command_socket_def create_data_socket_def
      send_request_def Let_def split: if_splits option.splits prod.splits sum.splits)

lemma init_freeze: "NatNetClient_init e cfg n = Inr c \<Longrightarrow> \<not> freeze c"
  by (auto simp: NatNetClient_init_def Let_def update_unpacker_version_def
      split: prod.splits sum.splits dest!: connect_freeze)

lemma connect_shape:
  "connect e c = (Inr u, c') \<Longrightarrow> \<not> running c \<Longrightarrow> command_thread c = None \<Longrightarrow>
   data_thread c = None \<Longrightarrow>
   (case command_socket c' of None \<Rightarrow> True | Some s \<Rightarrow> outbox s = [])
   \<and> (if running c'
      then command_thread c' = Some Started \<and> data_thread c' = Some Started
           \<and> command_socket c' \<noteq> None \<and> data_socket c' \<noteq> None
      else command_thread c' = None \<and> data_thread c' = None)"
  by (auto simp: connect_def create_command_socket_def create_data_socket_def
      create_socket_def send_request_def Let_def
      split: if_splits option.splits prod.splits sum.splits)

lemma init_shape:
  "NatNetClient_init e cfg n = Inr c \<Longrightarrow>
   (case command_socket c of None \<Rightarrow> True | Some s \<Rightarrow> outbox s = [])
   \<and> (if running c
      then command_thread c = Some Started \<and> data_thread c = Some Started
           \<and> command_socket c \<noteq> None \<and> data_socket c \<noteq> None
      else command_thread c = None \<and> data_thread c = None)"
  unfolding NatNetClient_init_def Let_def
  by (auto simp: update_unpacker_version_def split: prod.splits sum.splits
      dest!: connect_shape)

lemma connect_server_info: "connect e c = (r, c') \<Longrightarrow> server_info c' = server_info c"
  by (auto simp: connect_def create_command_socket_def create_data_socket_def
      send_request_def Let_def split: if_splits option.splits prod.splits sum.splits)

lemma init_unpacker: "NatNetClient_init e cfg n = Inr c \<Longrightarrow> unpacker c = DataUnpackerV4_1"
  unfolding NatNetClient_init_def Let_def
  by (auto simp: update_unpacker_version_def split: prod.splits sum.splits
      dest!: connect_server_info)

lemma init_connected_default:
  "NatNetClient_init env_ok default_config 255 = Inr connected_default"
  by (simp add: NatNetClient_init_def Let_def update_unpacker_version_def connect_def
      create_command_socket_def create_data_socket_def create_socket_def
      send_request_def env_ok_def default_config_def connected_default_def
      default_command_sock_def default_data_sock_def)

lemma init_unconnected_default:
  "NatNetClient_init env_no_bind default_config 255 = Inr unconnected_default"
  by (simp add: NatNetClient_init_def Let_def update_unpacker_version_def connect_def
      create_command_socket_def create_data_socket_def create_socket_def
      send_request_def env_no_bind_def default_config_def connected_default_def
      unconnected_default_def)

text \<open>
  C10. Construction calls \<^verbatim>\<open>connect\<close>: an instance that comes out connected has both
  sockets and both receive threads started, and one that comes out disconnected has no
  thread. But \<^verbatim>\<open>connect\<close> calls \<^verbatim>\<open>send_request\<close> before it sets the running flag, and
  \<^verbatim>\<open>send_request\<close> returns -1 at once while the flag is unset: after construction
  nothing has been sent through the command socket, so the CONNECT handshake of the
  claim never leaves.
\<close>

theorem construction_sends_no_handshake:
  assumes "NatNetClient_init e cfg n = Inr c"
  shows "(case command_socket c of None \<Rightarrow> True | Some s \<Rightarrow> outbox s = [])
         \<and> (if running c
            then command_thread c = Some Started \<and> data_thread c = Some Started
                 \<and> command_socket c \<noteq> None \<and> data_socket c \<noteq> None
            else command_thread c = None \<and> data_thread c = None)"
  using init_shape [OF assms] .

theorem construction_sends_no_handshake_witness:
  "NatNetClient_init env_ok default_config 255 = Inr connected_default
   \<and> running connected_default
   \<and> command_socket connected_default = Some default_command_sock
   \<and> outbox default_command_sock = []
   \<and> command_thread connected_default = Some Started
   \<and> data_thread connected_default = Some Started"
proof -
  have s: "command_socket connected_default = Some default_command_sock"
    and r: "running connected_default"
    by (simp_all add: connected_default_def)
  from construction_sends_no_handshake [OF init_connected_default] s r
  have "outbox default_command_sock = []
     \<and> command_thread connected_default = Some Started
     \<and> data_thread connected_default = Some Started"
    by simp
  with s r init_connected_default show ?thesis by blast
qed

text \<open>
  C2. \<^verbatim>\<open>__setattr__\<close> refuses an assignment to a configuration field only when
  \<^verbatim>\<open>__freeze\<close> is set, and nothing sets it: \<^verbatim>\<open>connect\<close> leaves it as it is, so on
  every constructed instance, connected or not, the assignment to any of the six
  fields succeeds. The claim's error after a successful \<^verbatim>\<open>connect\<close> is never raised.
\<close>

theorem config_assignment_never_refused:
  assumes "NatNetClient_init e cfg n = Inr c"
  shows "setattr a c = Inr (assign a c)"
  using init_freeze [OF assms] by (simp add: setattr_def)

theorem config_assignment_never_refused_witness:
  "NatNetClient_init env_ok default_config 255 = Inr connected_default
   \<and> running connected_default
   \<and> setattr (Set_data_port 1512) connected_default
       = Inr (connected_default\<lparr>data_port := 1512\<rparr>)"
proof -
  have "setattr (Set_data_port 1512) connected_default
       = Inr (connected_default\<lparr>data_port := 1512\<rparr>)"
    using config_assignment_never_refused [OF init_connected_default, of "Set_data_port 1512"]
    by simp
  moreover have "running connected_default"
    by (simp add: connected_default_def)
  ultimately show ?thesis using init_connected_default by blast
qed

text \<open>
  C9. On an instance that construction connected, \<^verbatim>\<open>shutdown\<close> clears the running
  flag, drops both sockets and joins both threads, and a second call changes nothing. On
  an instance whose construction could not bind a socket the thread attributes were
  never assigned: every call of \<^verbatim>\<open>shutdown\<close> ends in AttributeError at the first
  \<^verbatim>\<open>join\<close>.
\<close>

theorem shutdown_needs_threads:
  assumes "NatNetClient_init e cfg n = Inr c"
  shows "(\<not> running c \<longrightarrow>
            fst (shutdown c) = Inl AttributeError
            \<and> fst (shutdown (snd (shutdown c))) = Inl AttributeError)
       \<and> (running c \<longrightarrow>
            fst (shutdown c) = Inr ()
            \<and> \<not> running (snd (shutdown c))
            \<and> command_socket (snd (shutdown c)) = None
            \<and> data_socket (snd (shutdown c)) = None
            \<and> command_thread (snd (shutdown c)) = Some Joined
            \<and> data_thread (snd (shutdown c)) = Some Joined
            \<and> shutdown (snd (shutdown c)) = (Inr (), snd (shutdown c)))"
  using init_shape [OF assms]
  by (auto simp: shutdown_def Let_def split: option.splits)

theorem shutdown_needs_threads_witness:
  "NatNetClient_init env_no_bind default_config 255 = Inr unconnected_default
   \<and> \<not> running unconnected_default
   \<and> fst (shutdown unconnected_default) = Inl AttributeError
   \<and> fst (shutdown (snd (shutdown unconnected_default))) = Inl AttributeError"
proof -
  have r: "\<not> running unconnected_default"
    by (simp add: unconnected_default_def)
  from shutdown_needs_threads [OF init_unconnected_default] r init_unconnected_default
  show ?thesis by blast
qed


section \<open>Server info and the codec variant\<close>

lemma v3_payload:
  "drop 4 server_info_v3 = map of_nat (lit ''Motive'') @ replicate 250 0 @ [3, 1, 0, 0] @ [3, 0, 0, 0]"
  by (simp add: server_info_v3_def)

lemma v3_name:
  "before_null (py_slice 0 256 (drop 4 server_info_v3)) = [77, 111, 116, 105, 118, 101]"
  unfolding v3_payload by (simp add: before_null_def py_slice_def lit_def)

lemma v3_version: "py_slice 256 260 (drop 4 server_info_v3) = [3, 1, 0, 0]"
  unfolding v3_payload by (simp add: py_slice_def lit_def)

lemma v3_natnet: "py_slice 260 264 (drop 4 server_info_v3) = [3, 0, 0, 0]"
  unfolding v3_payload by (simp add: py_slice_def lit_def)

lemma v3_header:
  "py_slice 0 2 server_info_v3 = [1, 0]"
  by (simp add: py_slice_def server_info_v3_def)

lemma server_info_v3_unpack:
  "unpack_server_info (drop 4 server_info_v3) k c =
     (Inr 264, c\<lparr>server_info :=
        \<lparr>application_name = lit ''Motive'', version = (3, 1, 0, 0),
         nat_net_major = 3, nat_net_minor = 0\<rparr>\<rparr>)"
  unfolding unpack_server_info_def v3_name v3_version v3_natnet
  by (simp add: utf8_decode_def lit_def struct_unpack_BBBB_def)

lemma v3_kind: "NAT_Messages_of (get_message_id (py_slice 0 2 server_info_v3)) = SERVER_INFO"
  unfolding v3_header by (simp add: get_message_id_def py_slice_def int_from_bytes_def NAT_Messages_of_def)

lemma v3_process:
  "process_message U server_info_v3 c =
     (Inr (), c\<lparr>server_info :=
        \<lparr>application_name = lit ''Motive'', version = (3, 1, 0, 0),
         nat_net_major = 3, nat_net_minor = 0\<rparr>\<rparr>)"
  unfolding process_message_def v3_kind Let_def by (simp add: server_info_v3_unpack)

text \<open>
  C1. Processing a SERVER_INFO message never changes the unpacker: the handler names
  \<^verbatim>\<open>__update_unpacker_version\<close> without calling it. After a message that announces
  NatNet 3.0 the stored server info says major 3, the unpacker is still the current
  variant chosen at construction, and the selection rule, had it run, would have chosen
  the legacy variant.
\<close>

theorem server_info_leaves_unpacker:
  assumes "NAT_Messages_of (get_message_id (py_slice 0 2 data)) = SERVER_INFO"
  shows "unpacker (snd (process_message U data c)) = unpacker c"
  using assms
  by (auto simp: process_message_def unpack_server_info_def Let_def
      split: sum.splits prod.splits)

theorem server_info_leaves_unpacker_witness:
  "NatNetClient_init env_ok default_config 255 = Inr connected_default
   \<and> process_message stub_unpackers server_info_v3 connected_default
       = (Inr (), connected_default\<lparr>server_info :=
            \<lparr>application_name = lit ''Motive'', version = (3, 1, 0, 0),
             nat_net_major = 3, nat_net_minor = 0\<rparr>\<rparr>)
   \<and> unpacker (snd (process_message stub_unpackers server_info_v3 connected_default))
       = DataUnpackerV4_1
   \<and> unpacker (update_unpacker_version
        (snd (process_message stub_unpackers server_info_v3 connected_default)))
       = DataUnpackerV3_0"
proof -
  have "unpacker (snd (process_message stub_unpackers server_info_v3 connected_default))
      = unpacker connected_default"
    by (rule server_info_leaves_unpacker [OF v3_kind])
  then have u: "unpacker (snd (process_message stub_unpackers server_info_v3 connected_default))
      = DataUnpackerV4_1"
    by (simp add: connected_default_def)
  have v: "unpacker (update_unpacker_version
        (snd (process_message stub_unpackers server_info_v3 connected_default)))
       = DataUnpackerV3_0"
    by (simp add: v3_process update_unpacker_version_def)
  from init_connected_default v3_process [of stub_unpackers connected_default] u v
  show ?thesis by blast
qed


section \<open>The dispatcher and the receive loops\<close>

lemma response_7_fields:
  "NAT_Messages_of (get_message_id (py_slice 0 2 response_7)) = RESPONSE"
  "int_from_bytes (py_slice 2 4 response_7) = 4"
  "int_from_bytes (drop 4 response_7) = 7"
  by (simp_all add: response_7_def get_message_id_def py_slice_def int_from_bytes_def
      NAT_Messages_of_def)

lemma response_7_process:
  "process_message U response_7 c =
     (Inr (), c\<lparr>server_responses :=
        deque_append (max_buffer_size c) (server_responses c) (IntResponse 7)\<rparr>)"
  by (simp add: process_message_def response_7_fields unpack_server_response_def)

lemma truncated_fails:
  "process_message U truncated_server_info c = (Inl StructError, c)"
  by (simp add: process_message_def truncated_server_info_def get_message_id_def py_slice_def
      int_from_bytes_def NAT_Messages_of_def unpack_server_info_def before_null_def
      utf8_decode_def struct_unpack_BBBB_def)

lemma process_message_failure: "process_message U d c = (Inl ex, c') \<Longrightarrow> c' = c"
  unfolding process_message_def Let_def
  by (cases "NAT_Messages_of (get_message_id (py_slice 0 2 d))")
    (auto simp: unpack_mocap_data_msg_def unpack_data_descriptions_def unpack_server_info_def
      unpack_server_response_def unpack_server_message_def unpack_unrecognized_request_def
      unpack_undefined_nat_message_def Let_def
      split: sum.splits prod.splits if_splits)

text \<open>
  C4. A RESPONSE message with declared size 4 appends the payload, read as a
  little-endian signed integer, to the response history. With any other declared size
  the bytes before the first null byte, within the first 256, are the response: if there
  are fewer than 30 of them they are decoded and the string is appended (a response that
  is not UTF-8 raises and appends nothing), otherwise nothing is appended.
\<close>

theorem response_history:
  assumes "NAT_Messages_of (get_message_id (py_slice 0 2 data)) = RESPONSE"
  shows "(int_from_bytes (py_slice 2 4 data) = 4 \<longrightarrow>
            process_message U data c =
              (Inr (), c\<lparr>server_responses :=
                          deque_append (max_buffer_size c) (server_responses c)
                            (IntResponse (int_from_bytes (drop 4 data)))\<rparr>))
       \<and> (int_from_bytes (py_slice 2 4 data) \<noteq> 4 \<longrightarrow>
            (if length (before_null (take 256 (drop 4 data))) < 30
             then (case utf8_decode (before_null (take 256 (drop 4 data))) of
                     Inr s \<Rightarrow>
                       process_message U data c =
                         (Inr (), c\<lparr>server_responses :=
                                     deque_append (max_buffer_size c) (server_responses c)
                                       (StrResponse s)\<rparr>)
                   | Inl ex \<Rightarrow> process_message U data c = (Inl ex, c))
             else process_message U data c = (Inr (), c)))"
  using assms
  by (simp add: process_message_def unpack_server_response_def Let_def split: sum.splits)

theorem response_history_witness:
  "process_message stub_unpackers response_7 connected_default =
     (Inr (), connected_default\<lparr>server_responses := [IntResponse 7]\<rparr>)"
  using response_history [OF response_7_fields(1), of stub_unpackers connected_default]
  by (simp add: response_7_fields deque_append_def connected_default_def)

text \<open>
  C3, as the code has it. Neither the dispatcher nor a receive loop catches what a
  handler raises: the exception leaves \<^verbatim>\<open>__process_message\<close> and ends the thread
  function, so the datagrams after it are not processed. The failing datagram leaves the
  client unchanged. A datagram whose handler returns lets the loop go on, and so does a
  socket error or a timeout of \<^verbatim>\<open>recv\<close>, the only failures that are caught.
\<close>

theorem handler_failure_ends_loop:
  assumes "data_socket c \<noteq> None" and "command_socket c \<noteq> None" and "d \<noteq> []"
  shows "(\<forall>ex c'. process_message U d c = (Inl ex, c') \<longrightarrow>
            c' = c
            \<and> data_thread_loop U True (Datagram d # evs) c = (Crashed ex, c)
            \<and> command_thread_loop U True (Datagram d # evs) c = (Crashed ex, c))
       \<and> (\<forall>u c'. process_message U d c = (Inr u, c') \<longrightarrow>
            data_thread_loop U True (Datagram d # evs) c = data_thread_loop U (running c) evs c'
            \<and> command_thread_loop U True (Datagram d # evs) c =
                command_thread_loop U (running c) evs c')
       \<and> data_thread_loop U True (SocketError # evs) c = data_thread_loop U (running c) evs c
       \<and> data_thread_loop U True (Timeout # evs) c = data_thread_loop U (running c) evs c
       \<and> command_thread_loop U True (SocketError # evs) c =
           command_thread_loop U (running c) evs c
       \<and> command_thread_loop U True (Timeout # evs) c =
           command_thread_loop U (running c) evs c"
proof -
  have a: "\<forall>ex c'. process_message U d c = (Inl ex, c') \<longrightarrow>
            c' = c
            \<and> data_thread_loop U True (Datagram d # evs) c = (Crashed ex, c)
            \<and> command_thread_loop U True (Datagram d # evs) c = (Crashed ex, c)"
  proof (intro allI impI)
    fix ex c' assume h: "process_message U d c = (Inl ex, c')"
    then have e: "c' = c" by (rule process_message_failure)
    with h assms show "c' = c
            \<and> data_thread_loop U True (Datagram d # evs) c = (Crashed ex, c)
            \<and> command_thread_loop U True (Datagram d # evs) c = (Crashed ex, c)"
      by simp
  qed
  have b: "\<forall>u c'. process_message U d c = (Inr u, c') \<longrightarrow>
            data_thread_loop U True (Datagram d # evs) c = data_thread_loop U (running c) evs c'
            \<and> command_thread_loop U True (Datagram d # evs) c =
                command_thread_loop U (running c) evs c'"
    using assms by auto
  have c: "data_thread_loop U True (SocketError # evs) c = data_thread_loop U (running c) evs c"
    "data_thread_loop U True (Timeout # evs) c = data_thread_loop U (running c) evs c"
    "command_thread_loop U True (SocketError # evs) c = command_thread_loop U (running c) evs c"
    "command_thread_loop U True (Timeout # evs) c = command_thread_loop U (running c) evs c"
    using assms by auto
  from a b c show ?thesis by blast
qed

theorem handler_failure_ends_loop_witness:
  "data_thread_loop stub_unpackers True
     [Datagram truncated_server_info, Datagram response_7] connected_default
     = (Crashed StructError, connected_default)
   \<and> data_thread_loop stub_unpackers True [SocketError, Datagram response_7] connected_default
     = (Waiting, connected_default\<lparr>server_responses := [IntResponse 7]\<rparr>)"
proof -
  have s: "data_socket connected_default \<noteq> None" "command_socket connected_default \<noteq> None"
    and r: "running connected_default"
    by (simp_all add: connected_default_def)
  have t: "truncated_server_info \<noteq> []" and q: "response_7 \<noteq> []"
    by (simp_all add: truncated_server_info_def response_7_def)
  note h1 = handler_failure_ends_loop [OF s t, of stub_unpackers "[Datagram response_7]"]
  from h1 truncated_fails [of stub_unpackers connected_default]
  have a: "data_thread_loop stub_unpackers True
     [Datagram truncated_server_info, Datagram response_7] connected_default
     = (Crashed StructError, connected_default)"
    by blast
  note h2 = handler_failure_ends_loop [OF s q, of stub_unpackers "[Datagram response_7]"]
  then have "data_thread_loop stub_unpackers True [SocketError, Datagram response_7]
       connected_default
     = data_thread_loop stub_unpackers (running connected_default) [Datagram response_7]
         connected_default"
    by blast
  then have b: "data_thread_loop stub_unpackers True [SocketError, Datagram response_7]
       connected_default
     = (Waiting, connected_default\<lparr>server_responses := [IntResponse 7]\<rparr>)"
    using r s q
    by (simp add: response_7_process deque_append_def)
      (simp add: connected_default_def)
  from a b show ?thesis by blast
qed

text \<open>
  C3, as the claim states it, fails: a SERVER_INFO datagram cut short raises
  struct.error in its handler, the data loop ends with that exception, and the RESPONSE
  datagram that follows is never appended, while the same RESPONSE alone is.
\<close>

theorem handler_failure_escapes_counterexample:
  "data_thread_function stub_unpackers
     [Datagram truncated_server_info, Datagram response_7] connected_default
     = (Crashed StructError, connected_default)
   \<and> data_thread_function stub_unpackers [Datagram response_7] connected_default
     = (Waiting, connected_default\<lparr>server_responses := [IntResponse 7]\<rparr>)"
proof -
  have s: "data_socket connected_default = Some default_data_sock"
    "running connected_default" "max_buffer_size connected_default = 255"
    "server_responses connected_default = []"
    by (simp_all add: connected_default_def)
  have t: "truncated_server_info \<noteq> []" and q: "response_7 \<noteq> []"
    by (simp_all add: truncated_server_info_def response_7_def)
  show ?thesis
    by (simp add: data_thread_function_def s t q truncated_fails response_7_process
        deque_append_def)
qed


section \<open>Descriptor sets\<close>






section \<open>Requests\<close>

lemma split16: "(n::int) mod 256 + 256 * ((n mod 65536) div 256) = n mod 65536"
proof -
  have "(n mod 65536) mod 256 = n mod 256"
    by (rule mod_mod_cancel) simp
  then show ?thesis
    using mult_div_mod_eq [of 256 "n mod 65536"] by simp
qed

lemma signed16:
  assumes "- 32768 \<le> (n::int)" "n \<le> 32767"
  shows "(if 32768 \<le> n mod 65536 then n mod 65536 - 65536 else n mod 65536) = n"
proof (cases "0 \<le> n")
  case True
  then have "n mod 65536 = n" using assms by simp
  then show ?thesis using assms by simp
next
  case False
  have "n mod 65536 = (n + 65536) mod 65536" by simp
  also have "\<dots> = n + 65536" using False assms by (intro mod_pos_pos_trivial) auto
  finally show ?thesis using False assms by simp
qed

lemma int_to_bytes2_roundtrip:
  assumes "int_to_bytes2 n = Inr bs"
  shows "length bs = 2 \<and> int_from_bytes bs = n"
proof -
  have r: "- 32768 \<le> n" "n \<le> 32767"
    and bs: "bs = [word_of_int (n mod 256), word_of_int ((n mod 65536) div 256)]"
    using assms by (auto simp: int_to_bytes2_def split: if_splits)
  have lo: "int (unat (word_of_int (n mod 256) :: byte)) = n mod 256"
    by (simp add: unat_eq_nat_uint uint_word_of_int_eq take_bit_eq_mod)
  have hi: "int (unat (word_of_int ((n mod 65536) div 256) :: byte)) = (n mod 65536) div 256"
  proof -
    have "0 \<le> (n mod 65536) div 256" "(n mod 65536) div 256 < 256" by auto
    then show ?thesis
      by (simp add: unat_eq_nat_uint uint_word_of_int_eq take_bit_eq_mod)
  qed
  have "int (le_nat bs) = n mod 256 + 256 * ((n mod 65536) div 256)"
    unfolding bs using lo hi by simp
  then have u: "int (le_nat bs) = n mod 65536"
    by (simp only: split16)
  have l: "length bs = 2" by (simp add: bs)
  have p: "(2::int) ^ (8 * 2 - 1) = 32768" "(2::int) ^ (8 * 2) = 65536" by simp_all
  have "int_from_bytes bs = (if 32768 \<le> n mod 65536 then n mod 65536 - 65536 else n mod 65536)"
    unfolding int_from_bytes_def Let_def u l p using l by auto
  then show ?thesis using signed16 [OF r] l by simp
qed

lemma utf8_enc_append:
  "utf8_enc xs = Some a \<Longrightarrow> utf8_enc ys = Some b \<Longrightarrow> utf8_enc (xs @ ys) = Some (a @ b)"
  by (induction xs arbitrary: a) (auto split: option.splits)

lemma utf8_enc_nulls: "utf8_enc (replicate n 0) = Some (replicate n 0)"
  by (induction n) (auto simp: utf8_enc1_def)

lemma utf8_enc_ascii: "\<forall>cp \<in> set s. cp < 128 \<Longrightarrow> utf8_enc s = Some s"
  by (induction s) (auto simp: utf8_enc1_def)

lemma utf8_encode_ascii_length:
  "\<forall>cp \<in> set s. cp < 128 \<Longrightarrow> utf8_encode s = Inr payload \<Longrightarrow> length payload = length s"
  by (auto simp: utf8_encode_def utf8_enc_ascii)

lemma connect_command_bytes:
  "utf8_encode connect_command =
     Inr ([80, 105, 110, 103] @ replicate 261 0 @ [4, 1, 0, 0] @ [0])"
  by (simp add: utf8_encode_def connect_command_def ljust_def lit_def utf8_enc_append
      utf8_enc_nulls utf8_enc1_def)

lemma connect_command_length: "length connect_command = 270"
  by (simp add: connect_command_def ljust_def lit_def)

lemma request_data_parts:
  assumes "request_data kind command = Inr data"
  obtains kind_bytes size_bytes payload where
    "int_to_bytes2 (NAT_value kind) = Inr kind_bytes"
    "int_to_bytes2 (snd (request_fields kind command)) = Inr size_bytes"
    "utf8_encode (fst (request_fields kind command)) = Inr payload"
    "data = kind_bytes @ size_bytes @ payload @ [0]"
  using assms
  by (auto simp: request_data_def split: prod.splits sum.splits)

lemma request_ab: "request_data REQUEST (lit ''ab'') = Inr [2, 0, 3, 0, 97, 98, 0]"
  by (simp add: request_data_def request_fields_def int_to_bytes2_def utf8_encode_def
      lit_def utf8_enc1_def)

lemma request_x: "request_data REQUEST (lit ''x'') = Inr [2, 0, 2, 0, 120, 0]"
  by (simp add: request_data_def request_fields_def int_to_bytes2_def utf8_encode_def
      lit_def utf8_enc1_def)

lemma request_connect:
  "request_data CONNECT command =
     Inr ([0, 0] @ [15, 1] @ ([80, 105, 110, 103] @ replicate 261 0 @ [4, 1, 0, 0] @ [0]) @ [0])"
  by (simp add: request_data_def request_fields_def int_to_bytes2_def connect_command_length
      connect_command_bytes)

lemma send_x_connected:
  "send_request REQUEST (lit ''x'') connected_default =
     (Inr 6, connected_default\<lparr>command_socket :=
        Some (default_command_sock\<lparr>outbox := [([2, 0, 2, 0, 120, 0], lit ''127.0.0.1'', 1510)]\<rparr>)\<rparr>)"
  by (simp add: send_request_def request_x connected_default_def sendto_def
      default_command_sock_def)

lemma send_x_flaky:
  "send_request REQUEST (lit ''x'') flaky_client = (Inl OSError, connected_default)"
  by (simp add: send_request_def request_x connected_default_def sendto_def
      default_command_sock_def flaky_client_def)

lemma send_request_minus1: "send_request k cmd c = (Inr (- 1), c') \<Longrightarrow> c' = c"
  by (auto simp: send_request_def sendto_def
      split: if_splits sum.splits option.splits list.splits send_outcome.splits)

lemma send_command_one_attempt:
  "send_command command c =
     (case send_request REQUEST command c of
        (Inl ex, c') \<Rightarrow> (Inl ex, c')
      | (Inr res, c') \<Rightarrow> (Inr (res \<noteq> - 1), c'))"
proof (cases "send_request REQUEST command c")
  case (Pair r c')
  show ?thesis
  proof (cases r)
    case (Inl ex)
    with Pair show ?thesis
      by (simp add: send_command_def numeral_3_eq_3)
  next
    case (Inr res)
    show ?thesis
    proof (cases "res = - 1")
      case True
      with Pair Inr have "c' = c" by (auto dest: send_request_minus1)
      with Pair Inr True show ?thesis
        by (simp add: send_command_def numeral_3_eq_3)
    next
      case False
      with Pair Inr show ?thesis
        by (simp add: send_command_def numeral_3_eq_3)
    qed
  qed
qed

lemma send_command_not_connected:
  "\<not> running c \<Longrightarrow> send_command command c = (Inr False, c)"
  by (simp add: send_command_one_attempt send_request_def)

text \<open>
  C8, as the code has it. A request that is encoded is, in this order, the message-kind
  id as two bytes (signed, little-endian), a declared length as two bytes (signed,
  little-endian), the encoded text and a null byte, and that datagram is what goes to
  \<^verbatim>\<open>sendto\<close>. For KEEP_ALIVE, REQUEST_MODEL_DEF and REQUEST_FRAME_OF_DATA the payload is
  empty and the declared length is 0. For CONNECT, and for a REQUEST whose text is ASCII,
  the declared length is the byte count of the payload plus one, for the trailing null
  byte. The CONNECT payload is "Ping" padded with null bytes to 265, the version bytes
  4, 1, 0, 0 and a null byte. KEEP_ALIVE encodes to 10, 0, 0, 0 and the trailing null
  byte.
\<close>

theorem request_layout:
  assumes "request_data kind command = Inr data"
  shows "\<exists>payload.
           data = take 4 data @ payload @ [0] \<and> length (take 4 data) = 4
         \<and> int_from_bytes (py_slice 0 2 data) = NAT_value kind
         \<and> utf8_encode
             (if kind = KEEP_ALIVE \<or> kind = REQUEST_MODEL_DEF \<or> kind = REQUEST_FRAME_OF_DATA
              then []
              else if kind = CONNECT then connect_command else command) = Inr payload
         \<and> (kind = KEEP_ALIVE \<or> kind = REQUEST_MODEL_DEF \<or> kind = REQUEST_FRAME_OF_DATA \<longrightarrow>
              payload = [] \<and> int_from_bytes (py_slice 2 4 data) = 0)
         \<and> (kind = CONNECT \<longrightarrow>
              payload = [80, 105, 110, 103] @ replicate 261 0 @ [4, 1, 0, 0] @ [0]
              \<and> int_from_bytes (py_slice 2 4 data) = int (length payload) + 1)
         \<and> (kind = REQUEST \<and> (\<forall>cp \<in> set command. cp < 128) \<longrightarrow>
              int_from_bytes (py_slice 2 4 data) = int (length payload) + 1)
         \<and> request_data KEEP_ALIVE command = Inr [10, 0, 0, 0, 0]
         \<and> (\<forall>c s. running c \<and> kind \<noteq> UNDEFINED \<and> command_socket c = Some s \<longrightarrow>
               send_request kind command c =
                 (case sendto data (server_address c, command_port c) s of
                    (r, s') \<Rightarrow> (r, c\<lparr>command_socket := Some s'\<rparr>)))"
proof -
  obtain kind_bytes size_bytes payload where
    k: "int_to_bytes2 (NAT_value kind) = Inr kind_bytes" and
    z: "int_to_bytes2 (snd (request_fields kind command)) = Inr size_bytes" and
    p: "utf8_encode (fst (request_fields kind command)) = Inr payload" and
    d: "data = kind_bytes @ size_bytes @ payload @ [0]"
    using assms by (rule request_data_parts)
  note rk = int_to_bytes2_roundtrip [OF k] and rz = int_to_bytes2_roundtrip [OF z]
  have s1: "py_slice 0 2 data = kind_bytes" "py_slice 2 4 data = size_bytes"
    and t4: "take 4 data = kind_bytes @ size_bytes"
    using rk rz by (simp_all add: py_slice_def d)
  have l: "data = take 4 data @ payload @ [0] \<and> length (take 4 data) = 4"
    using d t4 rk rz by simp
  have a: "int_from_bytes (py_slice 0 2 data) = NAT_value kind"
    using rk s1 by simp
  have sz: "int_from_bytes (py_slice 2 4 data) = snd (request_fields kind command)"
    using rz s1 by simp
  have e: "utf8_encode
             (if kind = KEEP_ALIVE \<or> kind = REQUEST_MODEL_DEF \<or> kind = REQUEST_FRAME_OF_DATA
              then []
              else if kind = CONNECT then connect_command else command) = Inr payload"
    using p by (auto simp: request_fields_def split: if_splits)
  have b0: "kind = KEEP_ALIVE \<or> kind = REQUEST_MODEL_DEF \<or> kind = REQUEST_FRAME_OF_DATA \<longrightarrow>
              payload = [] \<and> int_from_bytes (py_slice 2 4 data) = 0"
    using p sz by (auto simp: request_fields_def utf8_encode_def)
  have b1: "kind = CONNECT \<longrightarrow>
              payload = [80, 105, 110, 103] @ replicate 261 0 @ [4, 1, 0, 0] @ [0]
              \<and> int_from_bytes (py_slice 2 4 data) = int (length payload) + 1"
    using p sz by (auto simp: request_fields_def connect_command_bytes connect_command_length)
  have b2: "kind = REQUEST \<and> (\<forall>cp \<in> set command. cp < 128) \<longrightarrow>
              int_from_bytes (py_slice 2 4 data) = int (length payload) + 1"
  proof
    assume h: "kind = REQUEST \<and> (\<forall>cp \<in> set command. cp < 128)"
    then have "utf8_encode command = Inr payload"
      using p by (simp add: request_fields_def)
    with h have "length payload = length command"
      by (auto dest: utf8_encode_ascii_length)
    with h sz show "int_from_bytes (py_slice 2 4 data) = int (length payload) + 1"
      by (simp add: request_fields_def)
  qed
  have ka: "request_data KEEP_ALIVE command = Inr [10, 0, 0, 0, 0]"
    by (simp add: request_data_def request_fields_def int_to_bytes2_def utf8_encode_def)
  have f: "\<forall>c s. running c \<and> kind \<noteq> UNDEFINED \<and> command_socket c = Some s \<longrightarrow>
             send_request kind command c =
               (case sendto data (server_address c, command_port c) s of
                  (r, s') \<Rightarrow> (r, c\<lparr>command_socket := Some s'\<rparr>))"
    using assms by (simp add: send_request_def)
  from l a e b0 b1 b2 ka f show ?thesis by blast
qed

theorem request_layout_witness:
  "request_data REQUEST (lit ''ab'') = Inr ([2, 0] @ [3, 0] @ [97, 98] @ [0])
   \<and> int_from_bytes (py_slice 0 2 [2, 0, 3, 0, 97, 98, 0]) = 2
   \<and> int_from_bytes (py_slice 2 4 [2, 0, 3, 0, 97, 98, 0]) = int (length [97, 98 :: byte]) + 1
   \<and> request_data KEEP_ALIVE (lit ''ab'') = Inr [10, 0, 0, 0, 0]"
proof -
  from request_layout [OF request_ab]
  have k: "request_data KEEP_ALIVE (lit ''ab'') = Inr [10, 0, 0, 0, 0]"
    by blast
  have a: "int_from_bytes (py_slice 0 2 [2, 0, 3, 0, 97, 98, 0]) = 2"
    and b: "int_from_bytes (py_slice 2 4 [2, 0, 3, 0, 97, 98, 0]) = int (length [97, 98 :: byte]) + 1"
    by (simp_all add: py_slice_def int_from_bytes_def)
  from request_ab a b k show ?thesis by simp
qed

text \<open>
  C8, as the claim states it, fails: the two bytes behind the kind id are not the
  length of the payload. The REQUEST "ab" declares 3 for a payload of 2 bytes, and
  CONNECT declares 271 for its payload of 270 bytes.
\<close>

theorem payload_length_counterexample:
  "request_data REQUEST (lit ''ab'') = Inr ([2, 0] @ [3, 0] @ [97, 98] @ [0])
   \<and> int_from_bytes [3, 0] \<noteq> int (length [97, 98 :: byte])
   \<and> request_data CONNECT [] =
       Inr ([0, 0] @ [15, 1] @ ([80, 105, 110, 103] @ replicate 261 0 @ [4, 1, 0, 0] @ [0]) @ [0])
   \<and> int_from_bytes [15, 1]
       \<noteq> int (length ([80, 105, 110, 103] @ replicate 261 0 @ [4, 1, 0, 0] @ [0 :: byte]))"
proof -
  have a: "int_from_bytes [3, 0] \<noteq> int (length [97, 98 :: byte])"
    and b: "int_from_bytes [15, 1]
       \<noteq> int (length ([80, 105, 110, 103] @ replicate 261 0 @ [4, 1, 0, 0] @ [0 :: byte]))"
    by (simp_all add: int_from_bytes_def)
  from request_ab request_connect [of "[]"] a b show ?thesis by simp
qed

text \<open>
  C6. The retry of \<^verbatim>\<open>send_command\<close> goes on to another attempt only after
  \<^verbatim>\<open>send_request\<close> returned -1, and a failing \<^verbatim>\<open>sendto\<close> raises instead: when the
  first \<^verbatim>\<open>sendto\<close> of a connected client fails, \<^verbatim>\<open>send_command\<close> ends with that
  socket error after the one attempt, with nothing sent, where the claim has it try
  again, up to three times, and report success once an attempt succeeds.
\<close>

theorem socket_error_not_retried:
  assumes "running c" and "command_socket c = Some s" and "\<not> closed s"
    and "script s = SendFails # rest" and "request_data REQUEST command = Inr data"
  shows "send_command command c = (Inl OSError, c\<lparr>command_socket := Some (s\<lparr>script := rest\<rparr>)\<rparr>)"
  using assms by (simp add: send_command_one_attempt send_request_def sendto_def)

theorem socket_error_not_retried_witness:
  "send_command (lit ''x'') flaky_client = (Inl OSError, connected_default)
   \<and> command_socket connected_default = Some default_command_sock
   \<and> outbox default_command_sock = []
   \<and> fst (send_command (lit ''x'') connected_default) = Inr True"
proof -
  have r: "running flaky_client"
    and s: "command_socket flaky_client = Some (default_command_sock\<lparr>script := [SendFails]\<rparr>)"
    by (simp_all add: flaky_client_def connected_default_def)
  have o: "\<not> closed (default_command_sock\<lparr>script := [SendFails]\<rparr>)"
    and t: "script (default_command_sock\<lparr>script := [SendFails]\<rparr>) = SendFails # []"
    by (simp_all add: default_command_sock_def)
  from socket_error_not_retried [OF r s o t request_x]
  have a: "send_command (lit ''x'') flaky_client = (Inl OSError, connected_default)"
    by (simp add: flaky_client_def connected_default_def default_command_sock_def)
  have b: "command_socket connected_default = Some default_command_sock"
    "outbox default_command_sock = []"
    by (simp_all add: connected_default_def default_command_sock_def)
  have c: "fst (send_command (lit ''x'') connected_default) = Inr True"
    by (simp add: send_command_one_attempt send_x_connected)
  from a b c show ?thesis by blast
qed

end
